theory Spec2Isabelle
  imports Main "HOL-Library.Word"
begin

section \<open>The package-assembly scanner (streamlit\_app.py)\<close>

text \<open>
  A shallow embedding of the scan / undo / reset logic of \<^verbatim>\<open>src/streamlit_app.py\<close>.

  \<^item> The pandas table \<^verbatim>\<open>st.session_state.df\<close> is a list of rows; its index is the
    default \<^verbatim>\<open>RangeIndex\<close>, so the label of a row is its position in the list.
  \<^item> The numeric columns are \<^verbatim>\<open>int64\<close> (\<^verbatim>\<open>.astype(int)\<close>): 64-bit words, read as
    two's complement by \<open>sint\<close>; \<open>+\<close> and \<open>-\<close> wrap as numpy's do.
  \<^item> A Python \<^verbatim>\<open>str\<close> is the list of the bytes of its UTF-8 encoding. The only
    characters the code looks at are ASCII letters and digits, and every byte of a
    multi-byte UTF-8 sequence lies outside ASCII.
  \<^item> The three country names of the multiselect are the constructors of \<open>pais\<close>.
  \<^item> The banner (\<^verbatim>\<open>show_banner\<close>) is presentation and is not part of the state; the
    branch \<^verbatim>\<open>registrar_codigo\<close> took, which the banner shows, is returned as a value.
\<close>

subsection \<open>Code normalisation: \<^verbatim>\<open>norm_code\<close>\<close>

text \<open>The character class \<^verbatim>\<open>[0-9A-Za-z]\<close> of the regular expression.\<close>

definition is_alnum_ascii :: "char \<Rightarrow> bool" where
  "is_alnum_ascii c =
     (let n = (of_char c :: nat)
      in (48 \<le> n \<and> n \<le> 57) \<or> (65 \<le> n \<and> n \<le> 90) \<or> (97 \<le> n \<and> n \<le> 122))"

text \<open>\<^verbatim>\<open>str.upper\<close> on one ASCII character.\<close>

definition upper_ascii :: "char \<Rightarrow> char" where
  "upper_ascii c =
     (let n = (of_char c :: nat)
      in if 97 \<le> n \<and> n \<le> 122 then char_of (n - 32) else c)"

text \<open>
  \<^verbatim>\<open>re.sub(r"[^0-9A-Za-z]", "", s)\<close>: every character outside the class is deleted.
\<close>

definition re_sub_non_alnum :: "string \<Rightarrow> string" where
  "re_sub_non_alnum s = filter is_alnum_ascii s"

text \<open>
  \<^verbatim>\<open>norm_code(x)\<close>. The argument is any Python object: \<open>None\<close> is Python's
  \<^verbatim>\<open>None\<close>, and \<open>Some s\<close> is an object whose \<^verbatim>\<open>str(x)\<close> is \<open>s\<close>. After the
  substitution only ASCII letters and digits are left, so \<^verbatim>\<open>.upper()\<close> acts
  character by character.
\<close>

definition norm_code :: "string option \<Rightarrow> string" where
  "norm_code x = (case x of None \<Rightarrow> [] | Some s \<Rightarrow> map upper_ascii (re_sub_non_alnum s))"

subsection \<open>The table and the session state\<close>

type_synonym int64 = "64 word"

datatype pais = Peru | Chile | Colombia

text \<open>The value of \<^verbatim>\<open>"destino"\<close> in a scan-log entry: a country or \<^verbatim>\<open>"COMPLETO"\<close>.\<close>

datatype destino = Pais pais | COMPLETO

text \<open>
  The columns built from the spreadsheet (lines 118-125), after the numeric columns went
  through \<^verbatim>\<open>pd.to_numeric(...).fillna(0).astype(int)\<close>. Reading the file and mapping its
  columns come before and are not modelled; \<open>isbn\<close> is the cell as \<^verbatim>\<open>norm_code\<close>
  receives it.
\<close>

record entrada =
  isbn :: "string option"
  nombre :: string
  total_col :: int64
  peru :: int64
  chile :: int64
  colombia :: int64

text \<open>With \<^verbatim>\<open>df["isbn_norm"]\<close> (line 126): the rows the audit lists are copies of.\<close>

record fila_base = entrada +
  isbn_norm :: string

text \<open>With the counters of \<^verbatim>\<open>df.assign\<close> (lines 134-139).\<close>

record fila = fila_base +
  sc_pe :: int64
  sc_cl :: int64
  sc_co :: int64
  sc_total :: int64
  rem_pe :: int64
  rem_cl :: int64
  rem_co :: int64

record scan_entry =
  e_ts :: string
  e_code :: string
  e_match :: bool
  e_destino :: destino
  e_idx :: nat

record no_match_entry =
  n_ts :: string
  n_code :: string

record session =
  df :: "fila list"
  scan_log :: "scan_entry list"
  no_match :: "no_match_entry list"
  prioridad :: "pais list"
  incongruencias :: "(nat \<times> fila_base) list"
  duplicados :: "(nat \<times> fila_base) list"

text \<open>
  \<^verbatim>\<open>ensure_session\<close>: the defaults of a new session. \<^verbatim>\<open>df\<close> is \<^verbatim>\<open>None\<close> there
  and the scanning controls do not exist until a manifest is applied; the empty table
  stands for it, and every statement about the operations starts from
  \<open>aplicar_factura\<close>.
\<close>

definition ensure_session :: session where
  "ensure_session =
     \<lparr> df = [], scan_log = [], no_match = [], prioridad = [Peru, Chile, Colombia],
       incongruencias = [], duplicados = [] \<rparr>"

text \<open>
  The multiselect of line 74: a non-empty selection replaces the priority, an empty one
  leaves it.
\<close>

definition set_prioridad :: "pais list \<Rightarrow> session \<Rightarrow> session" where
  "set_prioridad sel s = (if sel \<noteq> [] then s\<lparr>prioridad := sel\<rparr> else s)"

subsection \<open>Applying a manifest (the \<^verbatim>\<open>need_reload\<close> block)\<close>

text \<open>
  The block replaces the table and the two audit lists. It also records the column
  mapping and the file signature, which only decide when the block runs again and are
  left out. It does not touch the scan log, the not-found log or the priority.
\<close>

text \<open>\<^verbatim>\<open>Series.duplicated(keep=False)\<close>: the mask of the values that occur more than once.\<close>

definition duplicated_keep_false :: "'a list \<Rightarrow> bool list" where
  "duplicated_keep_false xs = map (\<lambda>x. 1 < length (filter (\<lambda>y. y = x) xs)) xs"

text \<open>\<^verbatim>\<open>df[mask]\<close>: the rows whose mask is true, each with its index label.\<close>

definition select_rows :: "bool list \<Rightarrow> 'a list \<Rightarrow> (nat \<times> 'a) list" where
  "select_rows flags rows =
     map (\<lambda>i. (i, rows ! i)) (filter (\<lambda>i. flags ! i) [0..<length rows])"

definition with_isbn_norm :: "entrada \<Rightarrow> fila_base" where
  "with_isbn_norm r = entrada.extend r (fila_base.fields (norm_code (isbn r)))"

definition assign_counters :: "fila_base \<Rightarrow> fila" where
  "assign_counters r =
     fila_base.extend r (fila.fields 0 0 0 0 (peru r) (chile r) (colombia r))"

definition suma_paises :: "fila_base \<Rightarrow> int64" where
  "suma_paises r = peru r + chile r + colombia r"

definition aplicar_factura :: "entrada list \<Rightarrow> session \<Rightarrow> session" where
  "aplicar_factura data s =
     (let df0 = map with_isbn_norm data;
          dup = select_rows (duplicated_keep_false (map isbn_norm df0)) df0;
          incong = select_rows (map (\<lambda>r. suma_paises r \<noteq> total_col r) df0) df0
      in s\<lparr> duplicados := dup, incongruencias := incong,
            df := map assign_counters df0 \<rparr>)"

subsection \<open>Scanning: \<^verbatim>\<open>elegir_slot_para_codigo\<close> and \<^verbatim>\<open>registrar_codigo\<close>\<close>

text \<open>The inner loop \<^verbatim>\<open>for i in indices\<close> for one country of the outer loop.\<close>

fun elegir_en_indices :: "fila list \<Rightarrow> pais \<Rightarrow> nat list \<Rightarrow> (nat \<times> pais) option" where
  "elegir_en_indices d p [] = None"
| "elegir_en_indices d p (i # rest) =
     (if p = Peru \<and> 0 < sint (rem_pe (d ! i)) then Some (i, Peru)
      else if p = Chile \<and> 0 < sint (rem_cl (d ! i)) then Some (i, Chile)
      else if p = Colombia \<and> 0 < sint (rem_co (d ! i)) then Some (i, Colombia)
      else elegir_en_indices d p rest)"

text \<open>The outer loop \<^verbatim>\<open>for pais in st.session_state.prioridad\<close>.\<close>

fun elegir_slot_para_codigo :: "fila list \<Rightarrow> pais list \<Rightarrow> nat list \<Rightarrow> (nat \<times> pais) option" where
  "elegir_slot_para_codigo d [] indices = None"
| "elegir_slot_para_codigo d (p # ps) indices =
     (case elegir_en_indices d p indices of
        Some slot \<Rightarrow> Some slot
      | None \<Rightarrow> elegir_slot_para_codigo d ps indices)"

text \<open>\<^verbatim>\<open>df.index[df["isbn_norm"] == code].tolist()\<close>.\<close>

definition ix_all_of :: "fila list \<Rightarrow> string \<Rightarrow> nat list" where
  "ix_all_of d c = filter (\<lambda>i. isbn_norm (d ! i) = c) [0..<length d]"

text \<open>The counter updates of lines 212-218 on the chosen row.\<close>

definition sumar :: "pais \<Rightarrow> fila \<Rightarrow> fila" where
  "sumar p r =
     (let r1 = (if p = Peru then r\<lparr>sc_pe := sc_pe r + 1, rem_pe := rem_pe r - 1\<rparr>
                else if p = Chile then r\<lparr>sc_cl := sc_cl r + 1, rem_cl := rem_cl r - 1\<rparr>
                else r\<lparr>sc_co := sc_co r + 1, rem_co := rem_co r - 1\<rparr>)
      in r1\<lparr>sc_total := sc_total r1 + 1\<rparr>)"

text \<open>The branch taken, as the banner shows it.\<close>

datatype resultado = Ignorado | NoDetectado | Completo | Asignado nat pais

text \<open>
  \<^verbatim>\<open>registrar_codigo(raw_code)\<close>; \<open>ts\<close> is the value of \<^verbatim>\<open>datetime.now()\<close> at the call.
\<close>

definition registrar_codigo :: "string \<Rightarrow> string \<Rightarrow> session \<Rightarrow> session \<times> resultado" where
  "registrar_codigo ts raw_code s =
     (let c = norm_code (Some raw_code) in
      if c = [] then (s, Ignorado)
      else
        (case ix_all_of (df s) c of
           [] \<Rightarrow> (s\<lparr>no_match := no_match s @ [\<lparr>n_ts = ts, n_code = c\<rparr>]\<rparr>, NoDetectado)
         | i0 # rest \<Rightarrow>
             (case elegir_slot_para_codigo (df s) (prioridad s) (i0 # rest) of
                None \<Rightarrow>
                  (s\<lparr>scan_log := scan_log s @
                       [\<lparr>e_ts = ts, e_code = c, e_match = True,
                         e_destino = COMPLETO, e_idx = i0\<rparr>]\<rparr>,
                   Completo)
              | Some (i, p) \<Rightarrow>
                  (s\<lparr>df := (df s)[i := sumar p (df s ! i)],
                     scan_log := scan_log s @
                       [\<lparr>e_ts = ts, e_code = c, e_match = True,
                         e_destino = Pais p, e_idx = i\<rparr>]\<rparr>,
                   Asignado i p))))"

subsection \<open>Undo and reset\<close>

datatype py_error = KeyError

text \<open>The counter updates of lines 253-259 on the row the popped entry names.\<close>

definition restar :: "pais \<Rightarrow> fila \<Rightarrow> fila" where
  "restar p r =
     (let r1 = r\<lparr>sc_total := sc_total r - 1\<rparr>
      in if p = Peru then r1\<lparr>sc_pe := sc_pe r1 - 1, rem_pe := rem_pe r1 + 1\<rparr>
         else if p = Chile then r1\<lparr>sc_cl := sc_cl r1 - 1, rem_cl := rem_cl r1 + 1\<rparr>
         else r1\<lparr>sc_co := sc_co r1 - 1, rem_co := rem_co r1 + 1\<rparr>)"

text \<open>
  The handler of the undo button. With an empty log nothing changes. Otherwise the last
  entry is popped; \<^verbatim>\<open>df.loc[i, "sc_total"]\<close> raises \<^verbatim>\<open>KeyError\<close> when \<open>i\<close> is not a
  label of the table, after the pop: the error carries the state it leaves behind.
\<close>

definition deshacer :: "session \<Rightarrow> (py_error \<times> session) + session" where
  "deshacer s =
     (if scan_log s = [] then Inr s
      else
        (let ult = last (scan_log s);
             s1 = s\<lparr>scan_log := butlast (scan_log s)\<rparr>
         in case e_destino ult of
              Pais p \<Rightarrow>
                if e_match ult then
                  (let i = e_idx ult
                   in if i < length (df s1)
                      then Inr (s1\<lparr>df := (df s1)[i := restar p (df s1 ! i)]\<rparr>)
                      else Inl (KeyError, s1))
                else Inr s1
            | COMPLETO \<Rightarrow> Inr s1))"

text \<open>The handler of the reset button (lines 265-268).\<close>

definition reiniciar_fila :: "fila \<Rightarrow> fila" where
  "reiniciar_fila r =
     r\<lparr> sc_pe := 0, sc_cl := 0, sc_co := 0, sc_total := 0,
        rem_pe := peru r, rem_cl := chile r, rem_co := colombia r \<rparr>"

definition reiniciar :: "session \<Rightarrow> session" where
  "reiniciar s = s\<lparr> df := map reiniciar_fila (df s), scan_log := [], no_match := [] \<rparr>"

subsection \<open>Sessions as sequences of operations\<close>

text \<open>
  What the operator can do once a manifest is applied: scan a code (at a time \<open>ts\<close>),
  press undo, press reset, or change the priority. An exception raised by the undo
  handler ends that handler only; the session goes on in the state it left.
\<close>

datatype operacion = Escanear string string | Deshacer | Reiniciar | Priorizar "pais list"

definition paso :: "session \<Rightarrow> operacion \<Rightarrow> session" where
  "paso s ev =
     (case ev of
        Escanear ts raw_code \<Rightarrow> fst (registrar_codigo ts raw_code s)
      | Deshacer \<Rightarrow> (case deshacer s of Inr s' \<Rightarrow> s' | Inl (err, s') \<Rightarrow> s')
      | Reiniciar \<Rightarrow> reiniciar s
      | Priorizar sel \<Rightarrow> set_prioridad sel s)"

definition ejecutar :: "session \<Rightarrow> operacion list \<Rightarrow> session" where
  "ejecutar s evs = foldl paso s evs"

subsection \<open>Vocabulary of the properties\<close>

text \<open>The characters \<^verbatim>\<open>0-9\<close> and \<^verbatim>\<open>A-Z\<close>.\<close>

definition es_digito_o_mayuscula :: "char \<Rightarrow> bool" where
  "es_digito_o_mayuscula c =
     (let n = (of_char c :: nat) in (48 \<le> n \<and> n \<le> 57) \<or> (65 \<le> n \<and> n \<le> 90))"

text \<open>The same two character maps, given by the characters themselves.\<close>

definition letras_y_digitos :: string where
  "letras_y_digitos = ''0123456789ABCDEFGHIJKLMNOPQRSTUVWXYZabcdefghijklmnopqrstuvwxyz''"

definition mayuscula_de :: "char \<Rightarrow> char" where
  "mayuscula_de c =
     (case map_of (zip ''abcdefghijklmnopqrstuvwxyz'' ''ABCDEFGHIJKLMNOPQRSTUVWXYZ'') c of
        Some u \<Rightarrow> u | None \<Rightarrow> c)"

text \<open>The quota, scanned and remaining columns of a country.\<close>

definition cupo :: "pais \<Rightarrow> fila \<Rightarrow> int64" where
  "cupo p r = (case p of Peru \<Rightarrow> peru r | Chile \<Rightarrow> chile r | Colombia \<Rightarrow> colombia r)"

definition escaneado :: "pais \<Rightarrow> fila \<Rightarrow> int64" where
  "escaneado p r = (case p of Peru \<Rightarrow> sc_pe r | Chile \<Rightarrow> sc_cl r | Colombia \<Rightarrow> sc_co r)"

definition restante :: "pais \<Rightarrow> fila \<Rightarrow> int64" where
  "restante p r = (case p of Peru \<Rightarrow> rem_pe r | Chile \<Rightarrow> rem_cl r | Colombia \<Rightarrow> rem_co r)"

text \<open>The invariant of the counters of one row and one country, on the signed values.\<close>

definition contadores_ok :: "pais \<Rightarrow> fila \<Rightarrow> bool" where
  "contadores_ok p r =
     (0 \<le> sint (escaneado p r) \<and> sint (escaneado p r) \<le> sint (cupo p r)
      \<and> sint (restante p r) = sint (cupo p r) - sint (escaneado p r))"

text \<open>How many entries of a scan log record an allocation to row \<open>i\<close> and country \<open>p\<close>.\<close>

definition cuenta :: "scan_entry list \<Rightarrow> nat \<Rightarrow> pais \<Rightarrow> nat" where
  "cuenta lg i p =
     length (filter (\<lambda>e. e_match e \<and> e_destino e = Pais p \<and> e_idx e = i) lg)"

text \<open>The quota columns of every loaded row are nonnegative.\<close>

definition cupos_no_negativos :: "entrada list \<Rightarrow> bool" where
  "cupos_no_negativos data =
     list_all (\<lambda>e. 0 \<le> sint (peru e) \<and> 0 \<le> sint (chile e) \<and> 0 \<le> sint (colombia e)) data"

text \<open>
  The invariant that ties the table to the scan log: for every row and country, the
  scanned counter is the number of log entries that allocated to that row and country,
  that number does not exceed the quota, and the remaining counter is the difference.
\<close>

definition inv_fila :: "scan_entry list \<Rightarrow> nat \<Rightarrow> fila \<Rightarrow> bool" where
  "inv_fila lg i r =
     (\<forall>p. sint (escaneado p r) = int (cuenta lg i p)
          \<and> int (cuenta lg i p) \<le> sint (cupo p r)
          \<and> sint (restante p r) = sint (cupo p r) - int (cuenta lg i p))"

definition inv_sesion :: "session \<Rightarrow> bool" where
  "inv_sesion s = (\<forall>i<length (df s). inv_fila (scan_log s) i (df s ! i))"

text \<open>
  The selection as the specification words it: the pairs (country, row) in priority
  order and, within a country, in the order of the matching rows; the first pair whose
  remaining counter is positive.
\<close>

definition primera_pareja :: "fila list \<Rightarrow> pais list \<Rightarrow> nat list \<Rightarrow> (nat \<times> pais) option" where
  "primera_pareja d ps idxs =
     map_option (\<lambda>(p, i). (i, p))
       (List.find (\<lambda>(p, i). 0 < sint (restante p (d ! i))) (List.product ps idxs))"

text \<open>Example manifests and sessions, used to instantiate the theorems below.\<close>

definition factura_ejemplo :: "entrada list" where
  "factura_ejemplo =
     [\<lparr>isbn = Some ''978-1'', nombre = ''Uno'', total_col = 2,
        peru = 1, chile = 1, colombia = 0\<rparr>,
      \<lparr>isbn = Some ''978-2'', nombre = ''Dos'', total_col = 5,
        peru = 0, chile = 1, colombia = 1\<rparr>,
      \<lparr>isbn = Some ''9781'', nombre = ''Uno bis'', total_col = 1,
        peru = 1, chile = 0, colombia = 0\<rparr>]"

definition sesion_ejemplo :: session where
  "sesion_ejemplo = aplicar_factura factura_ejemplo ensure_session"

definition fila_a1 :: entrada where
  "fila_a1 = \<lparr>isbn = Some ''A-1'', nombre = ''Titulo'', total_col = 1,
               peru = 1, chile = 0, colombia = 0\<rparr>"

definition fila_c1 :: entrada where
  "fila_c1 = \<lparr>isbn = Some ''C-1'', nombre = ''Otro'', total_col = 1,
               peru = 0, chile = 1, colombia = 0\<rparr>"

definition sesion_a1 :: session where
  "sesion_a1 = aplicar_factura [fila_a1, fila_a1] ensure_session"

definition sesion_a1_llena :: session where
  "sesion_a1_llena =
     fst (registrar_codigo ''t1'' ''a1'' (aplicar_factura [fila_a1] ensure_session))"

definition sesion_solo_peru :: session where
  "sesion_solo_peru =
     set_prioridad [Peru]
       (aplicar_factura
          [\<lparr>isbn = Some ''B7'', nombre = ''Libro'', total_col = 1,
             peru = 0, chile = 1, colombia = 0\<rparr>]
          ensure_session)"

definition sesion_ejemplo_1 :: session where
  "sesion_ejemplo_1 = fst (registrar_codigo ''t1'' ''978-1'' sesion_ejemplo)"

text \<open>A row whose three quotas are the largest \<^verbatim>\<open>int64\<close>.\<close>

definition fila_max :: entrada where
  "fila_max = \<lparr>isbn = Some ''M1'', nombre = ''Max'', total_col = 9223372036854775805,
               peru = 9223372036854775807, chile = 9223372036854775807,
               colombia = 9223372036854775807\<rparr>"

section \<open>Properties\<close>

subsection \<open>The normaliser\<close>

lemma upper_ascii_fixes: "es_digito_o_mayuscula c \<Longrightarrow> upper_ascii c = c"
  unfolding es_digito_o_mayuscula_def upper_ascii_def Let_def by auto

lemma upper_ascii_of_alnum: "is_alnum_ascii c \<Longrightarrow> es_digito_o_mayuscula (upper_ascii c)"
  unfolding is_alnum_ascii_def es_digito_o_mayuscula_def upper_ascii_def Let_def by auto

lemma es_digito_o_mayuscula_alnum: "es_digito_o_mayuscula c \<Longrightarrow> is_alnum_ascii c"
  unfolding is_alnum_ascii_def es_digito_o_mayuscula_def Let_def by auto

lemma norm_code_chars: "list_all es_digito_o_mayuscula (norm_code x)"
  by (cases x)
    (auto simp: norm_code_def re_sub_non_alnum_def list_all_iff upper_ascii_of_alnum)

lemma norm_code_fixes: "list_all es_digito_o_mayuscula s \<Longrightarrow> norm_code (Some s) = s"
  by (induction s)
    (auto simp: norm_code_def re_sub_non_alnum_def es_digito_o_mayuscula_alnum
      upper_ascii_fixes)

lemma norm_code_example:
  "norm_code (Some '' 978-84-376-0494-7 x\<newline>'') = ''9788437604947X''"
  by (simp add: norm_code_def re_sub_non_alnum_def is_alnum_ascii_def upper_ascii_def
      char_of_def bit_Suc_0_iff)

lemma is_alnum_ascii_iff: "is_alnum_ascii c \<longleftrightarrow> c \<in> set letras_y_digitos"
proof (cases c)
  case (Char x1 x2 x3 x4 x5 x6 x7 x8)
  show ?thesis
    unfolding Char is_alnum_ascii_def letras_y_digitos_def Let_def
    by (simp; presburger?)
qed

lemma upper_ascii_eq: "upper_ascii c = mayuscula_de c"
proof (cases c)
  case (Char x1 x2 x3 x4 x5 x6 x7 x8)
  show ?thesis
    unfolding Char upper_ascii_def mayuscula_de_def Let_def
    by (simp add: char_of_def bit_Suc_0_iff)
qed

text \<open>
  C7. \<^verbatim>\<open>norm_code\<close> keeps exactly the ASCII letters and digits of its input, in order,
  and upper-cases them, so its result consists of digits and upper-case letters only;
  it is a total function, the empty input (and \<^verbatim>\<open>None\<close>) gives the empty string, and
  normalising a normalised code changes nothing. The characters kept are the 62
  characters \<^verbatim>\<open>0-9\<close>, \<^verbatim>\<open>A-Z\<close>, \<^verbatim>\<open>a-z\<close>, and upper-casing maps \<^verbatim>\<open>a-z\<close> to \<^verbatim>\<open>A-Z\<close>.
\<close>

theorem norm_code_strips_uppercases_idempotent:
  "norm_code (Some s) = map upper_ascii (filter is_alnum_ascii s)
   \<and> list_all es_digito_o_mayuscula (norm_code x)
   \<and> norm_code None = [] \<and> norm_code (Some []) = []
   \<and> norm_code (Some (norm_code x)) = norm_code x
   \<and> is_alnum_ascii c = (c \<in> set letras_y_digitos)
   \<and> upper_ascii c = mayuscula_de c"
  using norm_code_fixes[OF norm_code_chars[of x]] norm_code_chars[of x]
    is_alnum_ascii_iff[of c] upper_ascii_eq[of c]
  by (simp add: norm_code_def re_sub_non_alnum_def)

subsection \<open>Scanning a code\<close>

text \<open>
  C6. When the normalised code is empty, \<^verbatim>\<open>registrar_codigo\<close> returns at once: the
  whole session state (table, scan log, not-found log) is what it was.
\<close>

theorem registrar_codigo_blank_noop:
  "norm_code (Some raw_code) = [] \<Longrightarrow> registrar_codigo ts raw_code s = (s, Ignorado)"
  by (simp add: registrar_codigo_def)

theorem registrar_codigo_blank_noop_witness:
  "norm_code (Some '' -/ '') = []
   \<and> registrar_codigo ''t1'' '' -/ '' ensure_session = (ensure_session, Ignorado)"
proof -
  have h: "norm_code (Some '' -/ '') = []"
    by (simp add: norm_code_def re_sub_non_alnum_def is_alnum_ascii_def)
  show ?thesis using h registrar_codigo_blank_noop[OF h] by simp
qed

lemma with_isbn_norm_simps:
  "isbn_norm (with_isbn_norm e) = norm_code (isbn e)"
  "isbn (with_isbn_norm e) = isbn e" "nombre (with_isbn_norm e) = nombre e"
  "total_col (with_isbn_norm e) = total_col e" "peru (with_isbn_norm e) = peru e"
  "chile (with_isbn_norm e) = chile e" "colombia (with_isbn_norm e) = colombia e"
  by (simp_all add: with_isbn_norm_def entrada.defs fila_base.defs)

lemma assign_counters_simps:
  "sc_pe (assign_counters r) = 0" "sc_cl (assign_counters r) = 0"
  "sc_co (assign_counters r) = 0" "sc_total (assign_counters r) = 0"
  "rem_pe (assign_counters r) = peru r" "rem_cl (assign_counters r) = chile r"
  "rem_co (assign_counters r) = colombia r"
  "isbn_norm (assign_counters r) = isbn_norm r"
  "peru (assign_counters r) = peru r" "chile (assign_counters r) = chile r"
  "colombia (assign_counters r) = colombia r" "total_col (assign_counters r) = total_col r"
  "fila_base.truncate (assign_counters r) = r"
  by (simp_all add: assign_counters_def fila_base.defs fila.defs)

lemma elegir_en_indices_Some:
  "elegir_en_indices d p idxs = Some (i, q) \<Longrightarrow>
     q = p \<and> i \<in> set idxs \<and> 0 < sint (restante p (d ! i))"
  by (induction idxs) (auto simp: restante_def split: if_splits)

lemma elegir_slot_Some:
  "elegir_slot_para_codigo d ps idxs = Some (i, q) \<Longrightarrow>
     q \<in> set ps \<and> i \<in> set idxs \<and> 0 < sint (restante q (d ! i))"
  by (induction ps) (auto split: option.splits dest: elegir_en_indices_Some)

lemma ix_all_of_bound: "i \<in> set (ix_all_of d c) \<Longrightarrow> i < length d \<and> isbn_norm (d ! i) = c"
  by (simp add: ix_all_of_def)

lemma ix_all_of_Nil_iff: "ix_all_of d c = [] \<longleftrightarrow> c \<notin> set (map isbn_norm d)"
  by (force simp: ix_all_of_def filter_empty_conv in_set_conv_nth image_iff)

lemma find_append_case:
  "List.find P (xs @ ys) = (case List.find P xs of None \<Rightarrow> List.find P ys | Some x \<Rightarrow> Some x)"
  by (induction xs) auto

lemma find_map_Pair:
  "List.find (\<lambda>(p, i). Q p i) (map (Pair p) idxs) = map_option (Pair p) (List.find (Q p) idxs)"
  by (induction idxs) auto

lemma elegir_en_indices_find:
  "elegir_en_indices d p idxs =
     map_option (\<lambda>i. (i, p)) (List.find (\<lambda>i. 0 < sint (restante p (d ! i))) idxs)"
  by (induction idxs) (cases p; simp add: restante_def)+

lemma elegir_slot_primera_pareja:
  "elegir_slot_para_codigo d ps idxs = primera_pareja d ps idxs"
proof (induction ps)
  case Nil
  show ?case by (simp add: primera_pareja_def)
next
  case (Cons p ps)
  show ?case
    using Cons.IH
    by (simp add: primera_pareja_def find_append_case find_map_Pair elegir_en_indices_find
        split: option.splits)
qed

lemma elegir_en_indices_None_iff:
  "elegir_en_indices d p idxs = None \<longleftrightarrow> (\<forall>i\<in>set idxs. sint (restante p (d ! i)) \<le> 0)"
  by (induction idxs) (cases p; auto simp: restante_def)+

lemma elegir_slot_None_iff:
  "elegir_slot_para_codigo d ps idxs = None \<longleftrightarrow>
     (\<forall>p\<in>set ps. \<forall>i\<in>set idxs. sint (restante p (d ! i)) \<le> 0)"
proof (induction ps)
  case Nil
  show ?case by simp
next
  case (Cons p ps)
  show ?case
  proof (cases "elegir_en_indices d p idxs")
    case None
    then show ?thesis
      using Cons.IH elegir_en_indices_None_iff[of d p idxs] by simp
  next
    case (Some slot)
    then have "\<not> (\<forall>i\<in>set idxs. sint (restante p (d ! i)) \<le> 0)"
      using elegir_en_indices_None_iff[of d p idxs] by simp
    with Some show ?thesis by auto
  qed
qed

lemma registrar_codigo_asignado:
  assumes "norm_code (Some raw_code) \<noteq> []"
    and "elegir_slot_para_codigo (df s) (prioridad s)
           (ix_all_of (df s) (norm_code (Some raw_code))) = Some (i, p)"
  shows "registrar_codigo ts raw_code s =
     (s\<lparr>df := (df s)[i := sumar p (df s ! i)],
        scan_log := scan_log s @
          [\<lparr>e_ts = ts, e_code = norm_code (Some raw_code), e_match = True,
            e_destino = Pais p, e_idx = i\<rparr>]\<rparr>,
      Asignado i p)"
proof -
  from assms(2) have "ix_all_of (df s) (norm_code (Some raw_code)) \<noteq> []"
    by (auto dest: elegir_slot_Some)
  then obtain i0 rest where "ix_all_of (df s) (norm_code (Some raw_code)) = i0 # rest"
    by (cases "ix_all_of (df s) (norm_code (Some raw_code))") auto
  with assms show ?thesis
    by (simp add: registrar_codigo_def Let_def)
qed

lemma completo_iff_elegir_none:
  "(snd (registrar_codigo ts raw_code s) = Completo) =
     (norm_code (Some raw_code) \<noteq> []
      \<and> ix_all_of (df s) (norm_code (Some raw_code)) \<noteq> []
      \<and> elegir_slot_para_codigo (df s) (prioridad s)
           (ix_all_of (df s) (norm_code (Some raw_code))) = None)"
  by (auto simp: registrar_codigo_def Let_def split: list.splits option.splits)

lemma completo_estado:
  "snd (registrar_codigo ts raw_code s) = Completo \<Longrightarrow>
     fst (registrar_codigo ts raw_code s) =
       s\<lparr>scan_log := scan_log s @
           [\<lparr>e_ts = ts, e_code = norm_code (Some raw_code), e_match = True,
             e_destino = COMPLETO, e_idx = hd (ix_all_of (df s) (norm_code (Some raw_code)))\<rparr>]\<rparr>"
  by (auto simp: registrar_codigo_def Let_def split: list.splits option.splits if_splits)

lemma sumar_campos:
  "escaneado q (sumar p r) = (if q = p then escaneado p r + 1 else escaneado q r)"
  "restante q (sumar p r) = (if q = p then restante p r - 1 else restante q r)"
  "cupo q (sumar p r) = cupo q r"
  by (cases p; cases q; simp add: sumar_def Let_def escaneado_def restante_def cupo_def)+

lemma sumar_isbn_norm: "isbn_norm (sumar p r) = isbn_norm r"
  by (cases p) (simp_all add: sumar_def Let_def)

lemma sumar_explicito:
  "sumar p r =
     (case p of
        Peru \<Rightarrow> r\<lparr>sc_pe := sc_pe r + 1, rem_pe := rem_pe r - 1, sc_total := sc_total r + 1\<rparr>
      | Chile \<Rightarrow> r\<lparr>sc_cl := sc_cl r + 1, rem_cl := rem_cl r - 1, sc_total := sc_total r + 1\<rparr>
      | Colombia \<Rightarrow>
          r\<lparr>sc_co := sc_co r + 1, rem_co := rem_co r - 1, sc_total := sc_total r + 1\<rparr>)"
  by (cases p) (simp_all add: sumar_def Let_def)

lemma elegir_slot_solo_un_pais:
  assumes "a \<in> set ps"
    and "\<forall>i\<in>set idxs. \<forall>q. q \<noteq> a \<longrightarrow> sint (restante q (d ! i)) \<le> 0"
  shows "elegir_slot_para_codigo d ps idxs = elegir_en_indices d a idxs"
  using assms(1)
proof (induction ps)
  case Nil
  then show ?case by simp
next
  case (Cons p ps)
  show ?case
  proof (cases "p = a")
    case True
    show ?thesis
    proof (cases "elegir_en_indices d a idxs")
      case None
      then have "\<forall>i\<in>set idxs. sint (restante a (d ! i)) \<le> 0"
        by (simp add: elegir_en_indices_None_iff)
      with assms(2) have "\<forall>q\<in>set ps. \<forall>i\<in>set idxs. sint (restante q (d ! i)) \<le> 0"
        by metis
      then have "elegir_slot_para_codigo d ps idxs = None"
        by (simp add: elegir_slot_None_iff)
      with None True show ?thesis by simp
    next
      case (Some slot)
      with True show ?thesis by simp
    qed
  next
    case False
    with assms(2) have "\<forall>i\<in>set idxs. sint (restante p (d ! i)) \<le> 0"
      by simp
    then have "elegir_en_indices d p idxs = None"
      by (simp add: elegir_en_indices_None_iff)
    moreover from False Cons.prems have "a \<in> set ps" by auto
    ultimately show ?thesis using Cons.IH by simp
  qed
qed

lemma registrar_codigo_sin_pareja:
  "elegir_slot_para_codigo (df s) (prioridad s)
      (ix_all_of (df s) (norm_code (Some raw_code))) = None \<Longrightarrow>
   df (fst (registrar_codigo ts raw_code s)) = df s"
  by (cases "ix_all_of (df s) (norm_code (Some raw_code))")
    (simp_all add: registrar_codigo_def Let_def)

lemma duplicados_en_orden:
  assumes c: "norm_code (Some raw_code) \<noteq> []"
    and n0: "norm_code (isbn e0) = norm_code (Some raw_code)"
    and n1: "norm_code (isbn e1) = norm_code (Some raw_code)"
    and q0: "peru e0 = (if a = Peru then 1 else 0)" "chile e0 = (if a = Chile then 1 else 0)"
      "colombia e0 = (if a = Colombia then 1 else 0)"
    and q1: "peru e1 = (if a = Peru then 1 else 0)" "chile e1 = (if a = Chile then 1 else 0)"
      "colombia e1 = (if a = Colombia then 1 else 0)"
    and pr: "a \<in> set (prioridad s)"
  shows "snd (registrar_codigo ts1 raw_code (aplicar_factura [e0, e1] s)) = Asignado 0 a
     \<and> snd (registrar_codigo ts2 raw_code
              (fst (registrar_codigo ts1 raw_code (aplicar_factura [e0, e1] s))))
         = Asignado 1 a
     \<and> map (escaneado a)
          (df (fst (registrar_codigo ts2 raw_code
                 (fst (registrar_codigo ts1 raw_code (aplicar_factura [e0, e1] s)))))) = [1, 1]
     \<and> map (restante a)
          (df (fst (registrar_codigo ts2 raw_code
                 (fst (registrar_codigo ts1 raw_code (aplicar_factura [e0, e1] s)))))) = [0, 0]"
proof -
  let ?c = "norm_code (Some raw_code)"
  let ?s0 = "aplicar_factura [e0, e1] s"
  let ?r0 = "assign_counters (with_isbn_norm e0)"
  let ?r1 = "assign_counters (with_isbn_norm e1)"
  have d0: "df ?s0 = [?r0, ?r1]" and p0: "prioridad ?s0 = prioridad s"
    by (simp_all add: aplicar_factura_def Let_def)
  have f0: "isbn_norm ?r0 = ?c" "\<And>q. restante q ?r0 = (if q = a then 1 else 0)"
      "escaneado a ?r0 = 0"
    using n0 q0
    by (simp_all add: assign_counters_simps with_isbn_norm_simps restante_def escaneado_def
        split: pais.splits)
  have f1: "isbn_norm ?r1 = ?c" "\<And>q. restante q ?r1 = (if q = a then 1 else 0)"
      "escaneado a ?r1 = 0"
    using n1 q1
    by (simp_all add: assign_counters_simps with_isbn_norm_simps restante_def escaneado_def
        split: pais.splits)
  have ix0: "ix_all_of [?r0, ?r1] ?c = [0, 1]"
    using f0 f1 by (simp add: ix_all_of_def upt_rec)
  have "elegir_slot_para_codigo [?r0, ?r1] (prioridad s) [0, 1]
      = elegir_en_indices [?r0, ?r1] a [0, 1]"
    using f0 f1 by (intro elegir_slot_solo_un_pais[OF pr]) simp
  then have e0: "elegir_slot_para_codigo [?r0, ?r1] (prioridad s) [0, 1] = Some (0, a)"
    using f0 by (simp add: elegir_en_indices_find)
  have first: "registrar_codigo ts1 raw_code ?s0 =
      (?s0\<lparr>df := [sumar a ?r0, ?r1],
           scan_log := scan_log ?s0 @
             [\<lparr>e_ts = ts1, e_code = ?c, e_match = True, e_destino = Pais a, e_idx = 0\<rparr>]\<rparr>,
       Asignado 0 a)"
    using registrar_codigo_asignado[of raw_code ?s0 0 a ts1] c e0 ix0
    by (simp add: d0 p0)
  let ?r0' = "sumar a ?r0"
  have g0: "isbn_norm ?r0' = ?c" "\<And>q. restante q ?r0' = 0" "escaneado a ?r0' = 1"
    using f0 by (simp_all add: sumar_campos sumar_isbn_norm)
  have ix1: "ix_all_of [?r0', ?r1] ?c = [0, 1]"
    using g0 f1 by (simp add: ix_all_of_def upt_rec)
  have "elegir_slot_para_codigo [?r0', ?r1] (prioridad s) [0, 1]
      = elegir_en_indices [?r0', ?r1] a [0, 1]"
    using g0 f1 by (intro elegir_slot_solo_un_pais[OF pr]) simp
  then have e1: "elegir_slot_para_codigo [?r0', ?r1] (prioridad s) [0, 1] = Some (1, a)"
    using g0 f1 by (simp add: elegir_en_indices_find)
  let ?s1 = "fst (registrar_codigo ts1 raw_code ?s0)"
  have d1: "df ?s1 = [?r0', ?r1]" and p1: "prioridad ?s1 = prioridad s"
    by (simp_all add: first p0)
  have second: "registrar_codigo ts2 raw_code ?s1 =
      (?s1\<lparr>df := [?r0', sumar a ?r1],
           scan_log := scan_log ?s1 @
             [\<lparr>e_ts = ts2, e_code = ?c, e_match = True, e_destino = Pais a, e_idx = 1\<rparr>]\<rparr>,
       Asignado 1 a)"
    using registrar_codigo_asignado[of raw_code ?s1 1 a ts2] c e1 ix1
    by (simp add: d1 p1)
  have fin: "escaneado a (sumar a ?r1) = 1" "restante a (sumar a ?r1) = 0"
    using f1 by (simp_all add: sumar_campos)
  show ?thesis
    using g0 fin by (simp add: second) (simp add: first)
qed

text \<open>
  C2. The slot \<^verbatim>\<open>elegir_slot_para_codigo\<close> returns is the first pair of the two-level
  search: countries in the order of the current priority, and for each country the rows
  given, in their order, the first pair with a positive remaining counter. The rows
  \<^verbatim>\<open>registrar_codigo\<close> searches are those whose normalised identifier is the scanned
  code, in index order. The first pair among them is the one committed: on that row the
  scanned counter of that country and the row total go up by one, its remaining counter
  goes down by one, and the log records the pair; when there is no such pair the table
  is not changed. In particular, with two rows of the same normalised identifier whose
  only quota is 1 for one country \<open>a\<close> of the priority list, two scans of the code go
  to row 0 and then to row 1, for \<open>a\<close>.
\<close>

theorem registrar_codigo_two_level_search:
  "elegir_slot_para_codigo d ps idxs = primera_pareja d ps idxs
   \<and> (norm_code (Some raw_code) \<noteq> [] \<longrightarrow>
        primera_pareja (df s) (prioridad s)
          (filter (\<lambda>k. isbn_norm (df s ! k) = norm_code (Some raw_code)) [0..<length (df s)])
          = Some (i, p) \<longrightarrow>
        registrar_codigo ts raw_code s =
          (s\<lparr>df := (df s)[i :=
               (case p of
                  Peru \<Rightarrow> (df s ! i)\<lparr>sc_pe := sc_pe (df s ! i) + 1,
                    rem_pe := rem_pe (df s ! i) - 1, sc_total := sc_total (df s ! i) + 1\<rparr>
                | Chile \<Rightarrow> (df s ! i)\<lparr>sc_cl := sc_cl (df s ! i) + 1,
                    rem_cl := rem_cl (df s ! i) - 1, sc_total := sc_total (df s ! i) + 1\<rparr>
                | Colombia \<Rightarrow> (df s ! i)\<lparr>sc_co := sc_co (df s ! i) + 1,
                    rem_co := rem_co (df s ! i) - 1, sc_total := sc_total (df s ! i) + 1\<rparr>)],
             scan_log := scan_log s @
               [\<lparr>e_ts = ts, e_code = norm_code (Some raw_code), e_match = True,
                 e_destino = Pais p, e_idx = i\<rparr>]\<rparr>,
           Asignado i p))
   \<and> (primera_pareja (df s) (prioridad s)
          (filter (\<lambda>k. isbn_norm (df s ! k) = norm_code (Some raw_code)) [0..<length (df s)])
          = None \<longrightarrow>
        df (fst (registrar_codigo ts raw_code s)) = df s)
   \<and> (norm_code (Some raw_code) \<noteq> [] \<longrightarrow>
        norm_code (isbn e0) = norm_code (Some raw_code) \<longrightarrow>
        norm_code (isbn e1) = norm_code (Some raw_code) \<longrightarrow>
        peru e0 = (if a = Peru then 1 else 0) \<and> chile e0 = (if a = Chile then 1 else 0)
          \<and> colombia e0 = (if a = Colombia then 1 else 0) \<longrightarrow>
        peru e1 = (if a = Peru then 1 else 0) \<and> chile e1 = (if a = Chile then 1 else 0)
          \<and> colombia e1 = (if a = Colombia then 1 else 0) \<longrightarrow>
        a \<in> set (prioridad s) \<longrightarrow>
        snd (registrar_codigo ts1 raw_code (aplicar_factura [e0, e1] s)) = Asignado 0 a
        \<and> snd (registrar_codigo ts2 raw_code
                 (fst (registrar_codigo ts1 raw_code (aplicar_factura [e0, e1] s))))
            = Asignado 1 a
        \<and> map (escaneado a)
             (df (fst (registrar_codigo ts2 raw_code
                    (fst (registrar_codigo ts1 raw_code (aplicar_factura [e0, e1] s))))))
            = [1, 1]
        \<and> map (restante a)
             (df (fst (registrar_codigo ts2 raw_code
                    (fst (registrar_codigo ts1 raw_code (aplicar_factura [e0, e1] s))))))
            = [0, 0])"
proof -
  let ?m = "filter (\<lambda>k. isbn_norm (df s ! k) = norm_code (Some raw_code)) [0..<length (df s)]"
  have m: "?m = ix_all_of (df s) (norm_code (Some raw_code))"
    by (simp add: ix_all_of_def)
  have b: "norm_code (Some raw_code) \<noteq> [] \<longrightarrow>
        primera_pareja (df s) (prioridad s) ?m = Some (i, p) \<longrightarrow>
        registrar_codigo ts raw_code s =
          (s\<lparr>df := (df s)[i := sumar p (df s ! i)],
             scan_log := scan_log s @
               [\<lparr>e_ts = ts, e_code = norm_code (Some raw_code), e_match = True,
                 e_destino = Pais p, e_idx = i\<rparr>]\<rparr>,
           Asignado i p)"
    using registrar_codigo_asignado[of raw_code s i p ts]
    by (simp add: m elegir_slot_primera_pareja)
  have n: "primera_pareja (df s) (prioridad s) ?m = None \<longrightarrow>
        df (fst (registrar_codigo ts raw_code s)) = df s"
    using registrar_codigo_sin_pareja[of s raw_code ts]
    by (simp add: m elegir_slot_primera_pareja)
  show ?thesis
    using b n duplicados_en_orden[of raw_code e0 e1 a s ts1 ts2]
    by (simp only: sumar_explicito elegir_slot_primera_pareja) blast
qed

theorem registrar_codigo_two_level_search_witness:
  "norm_code (Some ''a1'') \<noteq> []
   \<and> primera_pareja (df sesion_a1) (prioridad sesion_a1)
        (filter (\<lambda>k. isbn_norm (df sesion_a1 ! k) = norm_code (Some ''a1''))
           [0..<length (df sesion_a1)]) = Some (0, Peru)
   \<and> snd (registrar_codigo ''t1'' ''a1'' sesion_a1) = Asignado 0 Peru
   \<and> primera_pareja (df sesion_a1) (prioridad sesion_a1)
        (filter (\<lambda>k. isbn_norm (df sesion_a1 ! k) = norm_code (Some ''zz''))
           [0..<length (df sesion_a1)]) = None
   \<and> df (fst (registrar_codigo ''t1'' ''zz'' sesion_a1)) = df sesion_a1
   \<and> norm_code (Some ''c1'') \<noteq> []
   \<and> norm_code (isbn fila_c1) = norm_code (Some ''c1'')
   \<and> peru fila_c1 = 0 \<and> chile fila_c1 = 1 \<and> colombia fila_c1 = 0
   \<and> Chile \<in> set (prioridad ensure_session)
   \<and> snd (registrar_codigo ''t1'' ''c1'' (aplicar_factura [fila_c1, fila_c1] ensure_session))
       = Asignado 0 Chile
   \<and> snd (registrar_codigo ''t2'' ''c1''
            (fst (registrar_codigo ''t1'' ''c1''
                   (aplicar_factura [fila_c1, fila_c1] ensure_session))))
       = Asignado 1 Chile"
proof -
  have h1: "norm_code (Some ''a1'') \<noteq> []"
    by code_simp
  have h2: "primera_pareja (df sesion_a1) (prioridad sesion_a1)
        (filter (\<lambda>k. isbn_norm (df sesion_a1 ! k) = norm_code (Some ''a1''))
           [0..<length (df sesion_a1)]) = Some (0, Peru)"
    by code_simp
  have h3: "primera_pareja (df sesion_a1) (prioridad sesion_a1)
        (filter (\<lambda>k. isbn_norm (df sesion_a1 ! k) = norm_code (Some ''zz''))
           [0..<length (df sesion_a1)]) = None"
    by code_simp
  have h4: "norm_code (Some ''c1'') \<noteq> []"
    by code_simp
  have h5: "norm_code (isbn fila_c1) = norm_code (Some ''c1'')"
    by code_simp
  have h6: "peru fila_c1 = 0 \<and> chile fila_c1 = 1 \<and> colombia fila_c1 = 0"
    by (simp add: fila_c1_def)
  have h7: "Chile \<in> set (prioridad ensure_session)"
    by (simp add: ensure_session_def)
  note t1 = registrar_codigo_two_level_search[where raw_code = "''a1''" and s = sesion_a1
      and i = 0 and p = Peru and ts = "''t1''"]
  from t1 h1 h2 have a: "snd (registrar_codigo ''t1'' ''a1'' sesion_a1) = Asignado 0 Peru"
    by simp
  note t2 = registrar_codigo_two_level_search[where raw_code = "''zz''" and s = sesion_a1
      and ts = "''t1''"]
  from t2 h3 have b: "df (fst (registrar_codigo ''t1'' ''zz'' sesion_a1)) = df sesion_a1"
    by simp
  note t3 = registrar_codigo_two_level_search[where raw_code = "''c1''" and s = ensure_session
      and ?e0.0 = fila_c1 and ?e1.0 = fila_c1 and a = Chile and ?ts1.0 = "''t1''"
      and ?ts2.0 = "''t2''"]
  from t3 h4 h5 h6 h7 have c:
    "snd (registrar_codigo ''t1'' ''c1'' (aplicar_factura [fila_c1, fila_c1] ensure_session))
       = Asignado 0 Chile
     \<and> snd (registrar_codigo ''t2'' ''c1''
            (fst (registrar_codigo ''t1'' ''c1''
                   (aplicar_factura [fila_c1, fila_c1] ensure_session))))
       = Asignado 1 Chile"
    by simp
  from h1 h2 a h3 b h4 h5 h6 h7 c show ?thesis by blast
qed

text \<open>
  C4, as the code has it. \<^verbatim>\<open>registrar_codigo\<close> takes the \<^verbatim>\<open>COMPLETO\<close> branch exactly
  when the normalised code is not empty, some row matches it, and for every country of
  the current priority list the remaining counter of every matching row is at most 0
  (a country left out of the priority list is not looked at). It then appends one
  entry to the scan log, with \<^verbatim>\<open>match\<close> true, destination \<^verbatim>\<open>COMPLETO\<close> and the
  index of the first matching row, and changes nothing else.
\<close>

theorem registrar_codigo_completo_iff:
  "((snd (registrar_codigo ts raw_code s) = Completo) =
     (norm_code (Some raw_code) \<noteq> []
      \<and> norm_code (Some raw_code) \<in> set (map isbn_norm (df s))
      \<and> (\<forall>p\<in>set (prioridad s). \<forall>i\<in>set (ix_all_of (df s) (norm_code (Some raw_code))).
            sint (restante p (df s ! i)) \<le> 0)))
   \<and> (snd (registrar_codigo ts raw_code s) = Completo \<longrightarrow>
        fst (registrar_codigo ts raw_code s) =
          s\<lparr>scan_log := scan_log s @
              [\<lparr>e_ts = ts, e_code = norm_code (Some raw_code), e_match = True,
                e_destino = COMPLETO,
                e_idx = hd (ix_all_of (df s) (norm_code (Some raw_code)))\<rparr>]\<rparr>)"
  using completo_estado[of ts raw_code s]
  by (simp add: completo_iff_elegir_none elegir_slot_None_iff ix_all_of_Nil_iff)

theorem registrar_codigo_completo_iff_witness:
  "norm_code (Some ''a1'') \<noteq> []
   \<and> norm_code (Some ''a1'') \<in> set (map isbn_norm (df sesion_a1_llena))
   \<and> list_all
        (\<lambda>p. list_all (\<lambda>i. sint (restante p (df sesion_a1_llena ! i)) \<le> 0)
               (ix_all_of (df sesion_a1_llena) (norm_code (Some ''a1''))))
        (prioridad sesion_a1_llena)
   \<and> snd (registrar_codigo ''t2'' ''a1'' sesion_a1_llena) = Completo
   \<and> fst (registrar_codigo ''t2'' ''a1'' sesion_a1_llena) =
        sesion_a1_llena\<lparr>scan_log := scan_log sesion_a1_llena @
          [\<lparr>e_ts = ''t2'', e_code = norm_code (Some ''a1''), e_match = True,
            e_destino = COMPLETO,
            e_idx = hd (ix_all_of (df sesion_a1_llena) (norm_code (Some ''a1'')))\<rparr>]\<rparr>"
proof -
  have h1: "norm_code (Some ''a1'') \<noteq> []"
    by code_simp
  have h2: "norm_code (Some ''a1'') \<in> set (map isbn_norm (df sesion_a1_llena))"
    by code_simp
  have h3': "list_all
        (\<lambda>p. list_all (\<lambda>i. sint (restante p (df sesion_a1_llena ! i)) \<le> 0)
               (ix_all_of (df sesion_a1_llena) (norm_code (Some ''a1''))))
        (prioridad sesion_a1_llena)"
    by code_simp
  then have h3: "\<forall>p\<in>set (prioridad sesion_a1_llena).
         \<forall>i\<in>set (ix_all_of (df sesion_a1_llena) (norm_code (Some ''a1''))).
           sint (restante p (df sesion_a1_llena ! i)) \<le> 0"
    by (simp add: list_all_iff)
  note t = registrar_codigo_completo_iff[of "''t2''" "''a1''" sesion_a1_llena]
  from t h1 h2 h3 have a: "snd (registrar_codigo ''t2'' ''a1'' sesion_a1_llena) = Completo"
    by blast
  with t have b: "fst (registrar_codigo ''t2'' ''a1'' sesion_a1_llena) =
        sesion_a1_llena\<lparr>scan_log := scan_log sesion_a1_llena @
          [\<lparr>e_ts = ''t2'', e_code = norm_code (Some ''a1''), e_match = True,
            e_destino = COMPLETO,
            e_idx = hd (ix_all_of (df sesion_a1_llena) (norm_code (Some ''a1'')))\<rparr>]\<rparr>"
    by blast
  from h1 h2 h3' a b show ?thesis by blast
qed

text \<open>
  C4 as stated fails: with the priority list reduced to Peru, a code whose only row
  still has one unit left for Chile is answered \<^verbatim>\<open>COMPLETO\<close>.
\<close>

theorem completo_with_remaining_counterexample:
  "snd (registrar_codigo ''t1'' ''B7'' sesion_solo_peru) = Completo
   \<and> ix_all_of (df sesion_solo_peru) (norm_code (Some ''B7'')) = [0]
   \<and> 0 < sint (restante Chile (df sesion_solo_peru ! 0))"
  by code_simp

text \<open>
  C5. A non-empty normalised code that no row carries: one entry \<open>(ts, code)\<close> is
  appended to the not-found log and nothing else in the session changes (the scan log
  and every row of the table stay as they are).
\<close>

theorem registrar_codigo_no_detectado:
  "norm_code (Some raw_code) \<noteq> [] \<Longrightarrow>
   norm_code (Some raw_code) \<notin> set (map isbn_norm (df s)) \<Longrightarrow>
   registrar_codigo ts raw_code s =
     (s\<lparr>no_match := no_match s @ [\<lparr>n_ts = ts, n_code = norm_code (Some raw_code)\<rparr>]\<rparr>,
      NoDetectado)"
  using ix_all_of_Nil_iff[of "df s" "norm_code (Some raw_code)"]
  by (simp add: registrar_codigo_def Let_def)

theorem registrar_codigo_no_detectado_witness:
  "norm_code (Some ''zz-9'') \<noteq> []
   \<and> norm_code (Some ''zz-9'') \<notin> set (map isbn_norm (df sesion_ejemplo))
   \<and> registrar_codigo ''t1'' ''zz-9'' sesion_ejemplo =
       (sesion_ejemplo\<lparr>no_match := no_match sesion_ejemplo @
          [\<lparr>n_ts = ''t1'', n_code = norm_code (Some ''zz-9'')\<rparr>]\<rparr>,
        NoDetectado)"
proof -
  have h1: "norm_code (Some ''zz-9'') \<noteq> []"
    by code_simp
  have h2: "norm_code (Some ''zz-9'') \<notin> set (map isbn_norm (df sesion_ejemplo))"
    by code_simp
  from h1 h2 registrar_codigo_no_detectado[OF h1 h2, of "''t1''"] show ?thesis
    by blast
qed

subsection \<open>Undo and reset\<close>

lemma restar_sumar: "restar p (sumar p r) = r"
  by (cases p) (simp_all add: restar_def sumar_def Let_def)

lemma deshacer_registrar_aux:
  "snd (registrar_codigo ts raw_code s) = Asignado i p \<Longrightarrow>
     deshacer (fst (registrar_codigo ts raw_code s)) = Inr s"
proof -
  assume a: "snd (registrar_codigo ts raw_code s) = Asignado i p"
  let ?c = "norm_code (Some raw_code)"
  from a have c: "?c \<noteq> []"
    and sel: "elegir_slot_para_codigo (df s) (prioridad s) (ix_all_of (df s) ?c) = Some (i, p)"
    by (auto simp: registrar_codigo_def Let_def split: if_splits list.splits option.splits)
  from sel have "i < length (df s)"
    using elegir_slot_Some ix_all_of_bound by blast
  then show ?thesis
    by (simp add: registrar_codigo_asignado[OF c sel] deshacer_def Let_def restar_sumar)
qed

text \<open>
  C3. If scanning a code allocated a unit, the undo that follows gives back the session
  as it was before the scan: every counter of every row, the scan log, and the rest.
\<close>

theorem deshacer_inverts_registrar:
  "snd (registrar_codigo ts raw_code s) = Asignado i p \<Longrightarrow>
     deshacer (fst (registrar_codigo ts raw_code s)) = Inr s"
  by (rule deshacer_registrar_aux)

theorem deshacer_inverts_registrar_witness:
  "snd (registrar_codigo ''t1'' ''978-1'' sesion_ejemplo) = Asignado 0 Peru
   \<and> deshacer (fst (registrar_codigo ''t1'' ''978-1'' sesion_ejemplo)) = Inr sesion_ejemplo"
proof -
  have h: "snd (registrar_codigo ''t1'' ''978-1'' sesion_ejemplo) = Asignado 0 Peru"
    by code_simp
  from h deshacer_inverts_registrar[OF h] show ?thesis
    by blast
qed

text \<open>
  C9. The reset button sets the four scanned columns of every row to 0, copies the three
  quota columns into the remaining columns, empties the scan log and the not-found log,
  and leaves the manifest columns of every row, the priority and the audit lists as
  they were.
\<close>

theorem reiniciar_resets:
  "map sc_pe (df (reiniciar s)) = replicate (length (df s)) 0
   \<and> map sc_cl (df (reiniciar s)) = replicate (length (df s)) 0
   \<and> map sc_co (df (reiniciar s)) = replicate (length (df s)) 0
   \<and> map sc_total (df (reiniciar s)) = replicate (length (df s)) 0
   \<and> map rem_pe (df (reiniciar s)) = map peru (df s)
   \<and> map rem_cl (df (reiniciar s)) = map chile (df s)
   \<and> map rem_co (df (reiniciar s)) = map colombia (df s)
   \<and> scan_log (reiniciar s) = [] \<and> no_match (reiniciar s) = []
   \<and> map fila_base.truncate (df (reiniciar s)) = map fila_base.truncate (df s)
   \<and> prioridad (reiniciar s) = prioridad s
   \<and> duplicados (reiniciar s) = duplicados s
   \<and> incongruencias (reiniciar s) = incongruencias s"
  by (simp add: reiniciar_def reiniciar_fila_def fila_base.defs map_replicate_const comp_def)

lemma deshacer_prioridad:
  "deshacer (s\<lparr>prioridad := ps\<rparr>) =
     (case deshacer s of
        Inr s' \<Rightarrow> Inr (s'\<lparr>prioridad := ps\<rparr>)
      | Inl (err, s') \<Rightarrow> Inl (err, s'\<lparr>prioridad := ps\<rparr>))"
  by (simp add: deshacer_def Let_def split: destino.splits)

lemma restar_base: "fila_base.truncate (restar p r) = fila_base.truncate r"
  by (cases p) (simp_all add: restar_def Let_def fila_base.defs)

lemma restar_otros:
  "q \<noteq> p \<Longrightarrow> escaneado q (restar p r) = escaneado q r \<and> restante q (restar p r) = restante q r"
  by (cases p; cases q) (simp_all add: restar_def Let_def escaneado_def restante_def)

lemma map_truncate_update:
  "fila_base.truncate r' = fila_base.truncate (d ! i) \<Longrightarrow>
     map fila_base.truncate (d[i := r']) = map fila_base.truncate d"
  by (cases "i < length d") (auto intro!: nth_equalityI simp: nth_list_update)

lemma paso_deshacer_cases:
  "paso s Deshacer = s
   \<or> paso s Deshacer = s\<lparr>scan_log := butlast (scan_log s)\<rparr>
   \<or> (\<exists>p. e_destino (last (scan_log s)) = Pais p \<and> e_idx (last (scan_log s)) < length (df s)
        \<and> paso s Deshacer =
            s\<lparr>scan_log := butlast (scan_log s),
              df := (df s)[e_idx (last (scan_log s)) :=
                       restar p (df s ! e_idx (last (scan_log s)))]\<rparr>)"
  by (auto simp: paso_def deshacer_def Let_def split: destino.splits)

lemma paso_deshacer_marco:
  "no_match (paso s Deshacer) = no_match s
   \<and> prioridad (paso s Deshacer) = prioridad s
   \<and> duplicados (paso s Deshacer) = duplicados s
   \<and> incongruencias (paso s Deshacer) = incongruencias s
   \<and> map fila_base.truncate (df (paso s Deshacer)) = map fila_base.truncate (df s)
   \<and> (j \<noteq> e_idx (last (scan_log s)) \<longrightarrow> df (paso s Deshacer) ! j = df s ! j)
   \<and> (Pais q \<noteq> e_destino (last (scan_log s)) \<longrightarrow>
        map (escaneado q) (df (paso s Deshacer)) = map (escaneado q) (df s)
        \<and> map (restante q) (df (paso s Deshacer)) = map (restante q) (df s))"
  using paso_deshacer_cases[of s]
  by (elim disjE exE conjE)
    (auto simp: map_truncate_update restar_base map_update restar_otros
      intro!: nth_equalityI simp: nth_list_update)

lemma deshacer_set_prioridad:
  "snd (registrar_codigo ts raw_code s) = Asignado i p \<Longrightarrow>
     deshacer (set_prioridad sel (fst (registrar_codigo ts raw_code s))) = Inr (set_prioridad sel s)"
  using deshacer_registrar_aux[of ts raw_code s i p]
  by (simp add: set_prioridad_def deshacer_prioridad)

text \<open>
  C10. Pressing undo leaves the not-found log, the priority, the audit lists and the
  manifest columns of every row as they were; only the row the popped entry names can
  change, and on it the scanned and remaining counters of the countries the entry does
  not name stay the same. The handler does not read the priority: it commutes with any
  change of it, so an undo after a scan that allocated gives back the pre-scan table
  and log whatever priority was selected in between.
\<close>

theorem deshacer_frame:
  "no_match (paso s Deshacer) = no_match s
   \<and> prioridad (paso s Deshacer) = prioridad s
   \<and> duplicados (paso s Deshacer) = duplicados s
   \<and> incongruencias (paso s Deshacer) = incongruencias s
   \<and> map fila_base.truncate (df (paso s Deshacer)) = map fila_base.truncate (df s)
   \<and> (j \<noteq> e_idx (last (scan_log s)) \<longrightarrow> df (paso s Deshacer) ! j = df s ! j)
   \<and> (Pais q \<noteq> e_destino (last (scan_log s)) \<longrightarrow>
        map (escaneado q) (df (paso s Deshacer)) = map (escaneado q) (df s)
        \<and> map (restante q) (df (paso s Deshacer)) = map (restante q) (df s))
   \<and> deshacer (s\<lparr>prioridad := ps\<rparr>) =
       (case deshacer s of
          Inr s' \<Rightarrow> Inr (s'\<lparr>prioridad := ps\<rparr>)
        | Inl (err, s') \<Rightarrow> Inl (err, s'\<lparr>prioridad := ps\<rparr>))
   \<and> (snd (registrar_codigo ts raw_code s) = Asignado i p \<longrightarrow>
        deshacer (set_prioridad sel (fst (registrar_codigo ts raw_code s)))
          = Inr (set_prioridad sel s))"
  using paso_deshacer_marco[of s j q] deshacer_prioridad[where s = s and ps = ps]
    deshacer_set_prioridad[of ts raw_code s i p sel]
  by blast

theorem deshacer_frame_witness:
  "1 \<noteq> e_idx (last (scan_log sesion_ejemplo_1))
   \<and> df (paso sesion_ejemplo_1 Deshacer) ! 1 = df sesion_ejemplo_1 ! 1
   \<and> Pais Chile \<noteq> e_destino (last (scan_log sesion_ejemplo_1))
   \<and> map (escaneado Chile) (df (paso sesion_ejemplo_1 Deshacer))
       = map (escaneado Chile) (df sesion_ejemplo_1)
   \<and> map (restante Chile) (df (paso sesion_ejemplo_1 Deshacer))
       = map (restante Chile) (df sesion_ejemplo_1)
   \<and> snd (registrar_codigo ''t1'' ''978-1'' sesion_ejemplo) = Asignado 0 Peru
   \<and> deshacer (set_prioridad [Colombia, Peru]
                 (fst (registrar_codigo ''t1'' ''978-1'' sesion_ejemplo)))
       = Inr (set_prioridad [Colombia, Peru] sesion_ejemplo)"
proof -
  have h1: "1 \<noteq> e_idx (last (scan_log sesion_ejemplo_1))"
    by code_simp
  have h2: "Pais Chile \<noteq> e_destino (last (scan_log sesion_ejemplo_1))"
    by code_simp
  have h3: "snd (registrar_codigo ''t1'' ''978-1'' sesion_ejemplo) = Asignado 0 Peru"
    by code_simp
  note a = deshacer_frame[where s = sesion_ejemplo_1 and j = 1 and q = Chile]
  note b = deshacer_frame[where s = sesion_ejemplo and ts = "''t1''" and raw_code = "''978-1''"
      and i = 0 and p = Peru and sel = "[Colombia, Peru]"]
  from h1 h2 h3 a b show ?thesis by blast
qed

subsection \<open>The audit lists\<close>

lemma select_rows_mem:
  "(i, r) \<in> set (select_rows flags rows) \<longleftrightarrow> i < length rows \<and> flags ! i \<and> r = rows ! i"
  by (auto simp: select_rows_def)

lemma more_than_one_iff:
  assumes "i < length xs"
  shows "1 < length (filter (\<lambda>y. y = xs ! i) xs) \<longleftrightarrow>
         (\<exists>j<length xs. j \<noteq> i \<and> xs ! j = xs ! i)"
proof -
  let ?S = "{j. j < length xs \<and> xs ! j = xs ! i}"
  have fin: "finite ?S" by simp
  have len: "length (filter (\<lambda>y. y = xs ! i) xs) = card ?S"
    by (simp add: length_filter_conv_card)
  have iS: "i \<in> ?S" using assms by simp
  show ?thesis
  proof
    assume "1 < length (filter (\<lambda>y. y = xs ! i) xs)"
    then have "1 < card ?S" by (simp add: len)
    then have "\<not> ?S \<subseteq> {i}"
      using card_mono[of "{i}" ?S] by auto
    then show "\<exists>j<length xs. j \<noteq> i \<and> xs ! j = xs ! i" by auto
  next
    assume "\<exists>j<length xs. j \<noteq> i \<and> xs ! j = xs ! i"
    then obtain j where j: "j < length xs" "j \<noteq> i" "xs ! j = xs ! i" by blast
    then have "{i, j} \<subseteq> ?S" using assms by simp
    then have "card {i, j} \<le> card ?S" using fin card_mono by blast
    with j(2) show "1 < length (filter (\<lambda>y. y = xs ! i) xs)"
      by (simp add: len)
  qed
qed

lemma duplicated_keep_false_nth:
  "i < length xs \<Longrightarrow>
     duplicated_keep_false xs ! i \<longleftrightarrow> (\<exists>j<length xs. j \<noteq> i \<and> xs ! j = xs ! i)"
  using more_than_one_iff[of i xs] by (simp add: duplicated_keep_false_def)

lemma incongruencias_mem:
  "(i, r) \<in> set (incongruencias (aplicar_factura data s)) \<longleftrightarrow>
     i < length data \<and> r = with_isbn_norm (data ! i)
     \<and> peru (data ! i) + chile (data ! i) + colombia (data ! i) \<noteq> total_col (data ! i)"
  by (auto simp: aplicar_factura_def Let_def select_rows_mem suma_paises_def with_isbn_norm_simps)

lemma duplicados_mem:
  "(i, r) \<in> set (duplicados (aplicar_factura data s)) \<longleftrightarrow>
     i < length data \<and> r = with_isbn_norm (data ! i)
     \<and> (\<exists>j<length data. j \<noteq> i \<and> norm_code (isbn (data ! j)) = norm_code (isbn (data ! i)))"
proof -
  let ?xs = "map isbn_norm (map with_isbn_norm data)"
  have nth: "\<And>j. j < length data \<Longrightarrow> ?xs ! j = norm_code (isbn (data ! j))"
    by (simp add: with_isbn_norm_simps)
  have "i < length data \<Longrightarrow>
      duplicated_keep_false ?xs ! i \<longleftrightarrow>
        (\<exists>j<length data. j \<noteq> i \<and> norm_code (isbn (data ! j)) = norm_code (isbn (data ! i)))"
    using duplicated_keep_false_nth[of i ?xs] nth by auto
  then show ?thesis
    by (auto simp: aplicar_factura_def Let_def select_rows_mem)
qed

lemma auditoria_reemplaza:
  "incongruencias (aplicar_factura data s) = incongruencias (aplicar_factura data s0)
   \<and> duplicados (aplicar_factura data s) = duplicados (aplicar_factura data s0)"
  by (simp add: aplicar_factura_def Let_def)

lemma paso_auditoria:
  "incongruencias (paso s ev) = incongruencias s \<and> duplicados (paso s ev) = duplicados s"
  by (cases ev)
    (auto simp: paso_def registrar_codigo_def deshacer_def reiniciar_def set_prioridad_def
      Let_def split: list.splits option.splits destino.splits)

lemma ejecutar_auditoria:
  "incongruencias (ejecutar s evs) = incongruencias s
   \<and> duplicados (ejecutar s evs) = duplicados s"
  unfolding ejecutar_def
  by (induction evs arbitrary: s) (simp_all add: paso_auditoria)

lemma suma_sin_desborde:
  fixes a b c t :: int64
  assumes "0 \<le> sint a" "0 \<le> sint b" "0 \<le> sint c" "sint a + sint b + sint c < 2 ^ 63"
  shows "(a + b + c \<noteq> t) = (sint a + sint b + sint c \<noteq> sint t)"
proof -
  have ab: "sint (a + b) = sint a + sint b"
    using assms by (simp add: sint_word_ariths signed_take_bit_int_eq_self)
  have "sint (a + b + c) = sint (a + b) + sint c"
    using assms ab by (simp add: sint_word_ariths signed_take_bit_int_eq_self)
  with ab have "sint (a + b + c) = sint a + sint b + sint c" by simp
  then show ?thesis by (metis word_eq_iff_signed[where ?'a = int, simplified])
qed

text \<open>
  C8, as the code has it. Applying a manifest lists in \<^verbatim>\<open>incongruencias\<close> exactly the
  rows whose three quotas, added as \<^verbatim>\<open>int64\<close> values, differ from the total; when the
  quotas are nonnegative and their sum is below \<open>2^63\<close> that is the inequality of the
  integers. It lists in \<^verbatim>\<open>duplicados\<close> exactly the rows whose normalised identifier
  is also that of another row, so every member of a group. Both lists depend on the
  applied rows only, not on the session before, and no sequence of scans, undos, resets
  and priority changes alters them.
\<close>

theorem auditoria_snapshot:
  "((i, r) \<in> set (incongruencias (aplicar_factura data s)) \<longleftrightarrow>
      i < length data \<and> r = with_isbn_norm (data ! i)
      \<and> peru (data ! i) + chile (data ! i) + colombia (data ! i) \<noteq> total_col (data ! i))
   \<and> (0 \<le> sint (peru e) \<and> 0 \<le> sint (chile e) \<and> 0 \<le> sint (colombia e)
        \<and> sint (peru e) + sint (chile e) + sint (colombia e) < 2 ^ 63 \<longrightarrow>
        (peru e + chile e + colombia e \<noteq> total_col e)
          = (sint (peru e) + sint (chile e) + sint (colombia e) \<noteq> sint (total_col e)))
   \<and> ((i, r) \<in> set (duplicados (aplicar_factura data s)) \<longleftrightarrow>
        i < length data \<and> r = with_isbn_norm (data ! i)
        \<and> (\<exists>j<length data. j \<noteq> i
              \<and> norm_code (isbn (data ! j)) = norm_code (isbn (data ! i))))
   \<and> incongruencias (aplicar_factura data s) = incongruencias (aplicar_factura data s0)
   \<and> duplicados (aplicar_factura data s) = duplicados (aplicar_factura data s0)
   \<and> incongruencias (ejecutar s evs) = incongruencias s
   \<and> duplicados (ejecutar s evs) = duplicados s"
  using incongruencias_mem[of i r data s] duplicados_mem[of i r data s]
    auditoria_reemplaza[of data s s0] ejecutar_auditoria[of s evs]
    suma_sin_desborde[of "peru e" "chile e" "colombia e" "total_col e"]
  by blast

theorem auditoria_snapshot_witness:
  "1 < length factura_ejemplo
   \<and> peru (factura_ejemplo ! 1) + chile (factura_ejemplo ! 1) + colombia (factura_ejemplo ! 1)
       \<noteq> total_col (factura_ejemplo ! 1)
   \<and> (1, with_isbn_norm (factura_ejemplo ! 1)) \<in> set (incongruencias sesion_ejemplo)
   \<and> 0 \<le> sint (peru (factura_ejemplo ! 1)) \<and> 0 \<le> sint (chile (factura_ejemplo ! 1))
   \<and> 0 \<le> sint (colombia (factura_ejemplo ! 1))
   \<and> sint (peru (factura_ejemplo ! 1)) + sint (chile (factura_ejemplo ! 1))
        + sint (colombia (factura_ejemplo ! 1)) < 2 ^ 63
   \<and> sint (peru (factura_ejemplo ! 1)) + sint (chile (factura_ejemplo ! 1))
        + sint (colombia (factura_ejemplo ! 1)) \<noteq> sint (total_col (factura_ejemplo ! 1))
   \<and> 2 < length factura_ejemplo
   \<and> norm_code (isbn (factura_ejemplo ! 2)) = norm_code (isbn (factura_ejemplo ! 0))
   \<and> (0, with_isbn_norm (factura_ejemplo ! 0)) \<in> set (duplicados sesion_ejemplo)
   \<and> (2, with_isbn_norm (factura_ejemplo ! 2)) \<in> set (duplicados sesion_ejemplo)"
proof -
  have h1: "1 < length factura_ejemplo
      \<and> peru (factura_ejemplo ! 1) + chile (factura_ejemplo ! 1) + colombia (factura_ejemplo ! 1)
          \<noteq> total_col (factura_ejemplo ! 1)"
    by code_simp
  have h2: "0 \<le> sint (peru (factura_ejemplo ! 1)) \<and> 0 \<le> sint (chile (factura_ejemplo ! 1))
      \<and> 0 \<le> sint (colombia (factura_ejemplo ! 1))
      \<and> sint (peru (factura_ejemplo ! 1)) + sint (chile (factura_ejemplo ! 1))
           + sint (colombia (factura_ejemplo ! 1)) < 2 ^ 63"
    by code_simp
  have h3: "2 < length factura_ejemplo
      \<and> norm_code (isbn (factura_ejemplo ! 2)) = norm_code (isbn (factura_ejemplo ! 0))"
    by code_simp
  then have h4: "\<exists>j<length factura_ejemplo. j \<noteq> 0
      \<and> norm_code (isbn (factura_ejemplo ! j)) = norm_code (isbn (factura_ejemplo ! 0))"
    by (intro exI[of _ 2]) auto
  from h3 have h5: "\<exists>j<length factura_ejemplo. j \<noteq> 2
      \<and> norm_code (isbn (factura_ejemplo ! j)) = norm_code (isbn (factura_ejemplo ! 2))"
    by (intro exI[of _ 0]) auto
  have h0: "0 < length factura_ejemplo"
    using h1 by linarith
  note a = auditoria_snapshot[where i = 1 and r = "with_isbn_norm (factura_ejemplo ! 1)"
      and data = factura_ejemplo and s = ensure_session and e = "factura_ejemplo ! 1"
      and ?s0.0 = ensure_session and evs = "[]"]
  note b = auditoria_snapshot[where i = 0 and r = "with_isbn_norm (factura_ejemplo ! 0)"
      and data = factura_ejemplo and s = ensure_session and e = "factura_ejemplo ! 1"
      and ?s0.0 = ensure_session and evs = "[]"]
  note c = auditoria_snapshot[where i = 2 and r = "with_isbn_norm (factura_ejemplo ! 2)"
      and data = factura_ejemplo and s = ensure_session and e = "factura_ejemplo ! 1"
      and ?s0.0 = ensure_session and evs = "[]"]
  from h1 h2 a have p1: "(1, with_isbn_norm (factura_ejemplo ! 1))
        \<in> set (incongruencias sesion_ejemplo)"
    and p2: "sint (peru (factura_ejemplo ! 1)) + sint (chile (factura_ejemplo ! 1))
        + sint (colombia (factura_ejemplo ! 1)) \<noteq> sint (total_col (factura_ejemplo ! 1))"
    unfolding sesion_ejemplo_def by blast+
  from h0 h3 h4 b have p3: "(0, with_isbn_norm (factura_ejemplo ! 0))
        \<in> set (duplicados sesion_ejemplo)"
    unfolding sesion_ejemplo_def by blast
  from h3 h5 c have p4: "(2, with_isbn_norm (factura_ejemplo ! 2))
        \<in> set (duplicados sesion_ejemplo)"
    unfolding sesion_ejemplo_def by blast
  from h1 h2 h3 p1 p2 p3 p4 show ?thesis by blast
qed

text \<open>
  C8 as stated fails on the sum: three quotas of \<open>2^63 - 1\<close> wrap to \<open>2^63 - 3\<close>, so
  a row with that total is not listed although its quotas do not sum to its total.
\<close>

theorem auditoria_snapshot_counterexample:
  "0 \<le> sint (peru fila_max) \<and> 0 \<le> sint (chile fila_max) \<and> 0 \<le> sint (colombia fila_max)
   \<and> 0 \<le> sint (total_col fila_max)
   \<and> sint (peru fila_max) + sint (chile fila_max) + sint (colombia fila_max)
       \<noteq> sint (total_col fila_max)
   \<and> incongruencias (aplicar_factura [fila_max] ensure_session) = []"
  by code_simp

subsection \<open>The invariant of the counters\<close>

lemma sint_succ: "sint (x::int64) < sint (q::int64) \<Longrightarrow> sint (x + 1) = sint x + 1"
proof -
  assume a: "sint x < sint q"
  have "sint q < 2 ^ 63" using sint_lt[of q] by simp
  moreover have "- (2 ^ 63) \<le> sint x" using sint_ge[of x] by simp
  ultimately have "signed_take_bit 63 (sint x + 1) = sint x + 1"
    using a by (intro signed_take_bit_int_eq_self) auto
  then show ?thesis by (simp add: sint_word_ariths)
qed

lemma sint_pred: "sint (q::int64) < sint (x::int64) \<Longrightarrow> sint (x - 1) = sint x - 1"
proof -
  assume a: "sint q < sint x"
  have "sint x < 2 ^ 63" using sint_lt[of x] by simp
  moreover have "- (2 ^ 63) \<le> sint q" using sint_ge[of q] by simp
  ultimately have "signed_take_bit 63 (sint x - 1) = sint x - 1"
    using a by (intro signed_take_bit_int_eq_self) auto
  then show ?thesis by (simp add: sint_word_ariths)
qed

lemma restar_campos:
  "escaneado q (restar p r) = (if q = p then escaneado p r - 1 else escaneado q r)"
  "restante q (restar p r) = (if q = p then restante p r + 1 else restante q r)"
  "cupo q (restar p r) = cupo q r"
  by (cases p; cases q; simp add: restar_def Let_def escaneado_def restante_def cupo_def)+

lemma cuenta_append:
  "cuenta (lg @ [e]) i p =
     cuenta lg i p + (if e_match e \<and> e_destino e = Pais p \<and> e_idx e = i then 1 else 0)"
  by (simp add: cuenta_def)

lemma inv_fila_sumar:
  assumes inv: "inv_fila lg i r" and pos: "0 < sint (restante p r)"
    and e: "e_match e" "e_destino e = Pais p" "e_idx e = i"
  shows "inv_fila (lg @ [e]) i (sumar p r)"
  unfolding inv_fila_def
proof (intro allI)
  fix q
  from inv have iq: "sint (escaneado q r) = int (cuenta lg i q)"
      "int (cuenta lg i q) \<le> sint (cupo q r)"
      "sint (restante q r) = sint (cupo q r) - int (cuenta lg i q)"
    by (simp_all add: inv_fila_def)
  show "sint (escaneado q (sumar p r)) = int (cuenta (lg @ [e]) i q)
      \<and> int (cuenta (lg @ [e]) i q) \<le> sint (cupo q (sumar p r))
      \<and> sint (restante q (sumar p r)) = sint (cupo q (sumar p r)) - int (cuenta (lg @ [e]) i q)"
  proof (cases "q = p")
    case True
    from iq pos True have lt: "sint (escaneado p r) < sint (cupo p r)" by simp
    have z: "sint (0::int64) < sint (restante p r)" using pos by simp
    have "sint (escaneado p r + 1) = sint (escaneado p r) + 1"
      by (rule sint_succ[OF lt])
    moreover have "sint (restante p r - 1) = sint (restante p r) - 1"
      by (rule sint_pred[OF z])
    ultimately show ?thesis
      using iq True lt e by (simp add: sumar_campos cuenta_append)
  next
    case False
    then show ?thesis
      using iq e by (simp add: sumar_campos cuenta_append)
  qed
qed

lemma inv_fila_restar:
  assumes inv: "inv_fila (lg @ [e]) i r"
    and e: "e_match e" "e_destino e = Pais p" "e_idx e = i"
  shows "inv_fila lg i (restar p r)"
  unfolding inv_fila_def
proof (intro allI)
  fix q
  from inv have iq: "sint (escaneado q r) = int (cuenta (lg @ [e]) i q)"
      "int (cuenta (lg @ [e]) i q) \<le> sint (cupo q r)"
      "sint (restante q r) = sint (cupo q r) - int (cuenta (lg @ [e]) i q)"
    by (simp_all add: inv_fila_def)
  show "sint (escaneado q (restar p r)) = int (cuenta lg i q)
      \<and> int (cuenta lg i q) \<le> sint (cupo q (restar p r))
      \<and> sint (restante q (restar p r)) = sint (cupo q (restar p r)) - int (cuenta lg i q)"
  proof (cases "q = p")
    case True
    from iq True e have one: "sint (escaneado p r) = int (cuenta lg i p) + 1"
      and le: "int (cuenta lg i p) + 1 \<le> sint (cupo p r)"
      and re: "sint (restante p r) = sint (cupo p r) - int (cuenta lg i p) - 1"
      by (simp_all add: cuenta_append)
    have z: "sint (0::int64) < sint (escaneado p r)" using one by simp
    have lt: "sint (restante p r) < sint (cupo p r)" using re by simp
    have "sint (escaneado p r - 1) = sint (escaneado p r) - 1"
      by (rule sint_pred[OF z])
    moreover have "sint (restante p r + 1) = sint (restante p r) + 1"
      by (rule sint_succ[OF lt])
    ultimately show ?thesis
      using True one le re by (simp add: restar_campos)
  next
    case False
    then show ?thesis
      using iq e by (simp add: restar_campos cuenta_append)
  qed
qed

lemma inv_fila_otra_entrada:
  assumes "\<not> (e_match e \<and> e_idx e = j \<and> e_destino e \<noteq> COMPLETO)"
  shows "inv_fila (lg @ [e]) j r = inv_fila lg j r"
proof -
  have "\<And>q. cuenta (lg @ [e]) j q = cuenta lg j q"
    using assms by (auto simp: cuenta_append)
  then show ?thesis by (simp add: inv_fila_def)
qed

lemma inv_sesion_aplicar:
  assumes "cupos_no_negativos data" and "scan_log s = []"
  shows "inv_sesion (aplicar_factura data s)"
proof -
  have lg: "scan_log (aplicar_factura data s) = []"
    using assms(2) by (simp add: aplicar_factura_def Let_def)
  have d: "df (aplicar_factura data s) = map (assign_counters \<circ> with_isbn_norm) data"
    by (simp add: aplicar_factura_def Let_def)
  {
    fix i p assume i: "i < length data"
    let ?r = "assign_counters (with_isbn_norm (data ! i))"
    from assms(1) i have "0 \<le> sint (peru (data ! i)) \<and> 0 \<le> sint (chile (data ! i))
          \<and> 0 \<le> sint (colombia (data ! i))"
      by (simp add: cupos_no_negativos_def list_all_length)
    then have "sint (escaneado p ?r) = 0 \<and> 0 \<le> sint (cupo p ?r) \<and> restante p ?r = cupo p ?r"
      by (cases p)
        (simp_all add: escaneado_def cupo_def restante_def assign_counters_simps
          with_isbn_norm_simps)
  }
  then show ?thesis
    by (simp add: inv_sesion_def inv_fila_def lg d cuenta_def)
qed

lemma inv_sesion_registrar:
  assumes inv: "inv_sesion s"
  shows "inv_sesion (fst (registrar_codigo ts raw_code s))"
proof -
  let ?c = "norm_code (Some raw_code)"
  let ?ix = "ix_all_of (df s) ?c"
  consider (blank) "?c = []"
    | (nf) "?c \<noteq> []" "?ix = []"
    | (full) "?c \<noteq> []" "?ix \<noteq> []"
        "elegir_slot_para_codigo (df s) (prioridad s) ?ix = None"
    | (alloc) i p where "?c \<noteq> []"
        "elegir_slot_para_codigo (df s) (prioridad s) ?ix = Some (i, p)"
    by (cases "elegir_slot_para_codigo (df s) (prioridad s) ?ix") auto
  then show ?thesis
  proof cases
    case blank
    then show ?thesis using inv by (simp add: registrar_codigo_def)
  next
    case nf
    then show ?thesis using inv by (simp add: registrar_codigo_def inv_sesion_def)
  next
    case full
    then obtain i0 rest where "?ix = i0 # rest" by (cases ?ix) auto
    with full show ?thesis
      using inv by (simp add: registrar_codigo_def inv_sesion_def inv_fila_otra_entrada)
  next
    case alloc
    let ?e = "\<lparr>e_ts = ts, e_code = ?c, e_match = True, e_destino = Pais p, e_idx = i\<rparr>"
    from alloc(2) have i: "i < length (df s)" and pos: "0 < sint (restante p (df s ! i))"
      using elegir_slot_Some ix_all_of_bound by blast+
    have st: "fst (registrar_codigo ts raw_code s) =
        s\<lparr>df := (df s)[i := sumar p (df s ! i)], scan_log := scan_log s @ [?e]\<rparr>"
      by (simp add: registrar_codigo_asignado[OF alloc])
    show ?thesis
      unfolding inv_sesion_def st
    proof (intro allI impI)
      fix j assume "j < length (df (s\<lparr>df := (df s)[i := sumar p (df s ! i)],
                                   scan_log := scan_log s @ [?e]\<rparr>))"
      then have j: "j < length (df s)" by simp
      with inv have ij: "inv_fila (scan_log s) j (df s ! j)" by (simp add: inv_sesion_def)
      show "inv_fila (scan_log (s\<lparr>df := (df s)[i := sumar p (df s ! i)],
                                  scan_log := scan_log s @ [?e]\<rparr>)) j
              (df (s\<lparr>df := (df s)[i := sumar p (df s ! i)],
                     scan_log := scan_log s @ [?e]\<rparr>) ! j)"
      proof (cases "j = i")
        case True
        with ij pos show ?thesis
          using i by (simp add: inv_fila_sumar)
      next
        case False
        with ij show ?thesis
          by (simp add: inv_fila_otra_entrada)
      qed
    qed
  qed
qed

lemma inv_sesion_deshacer:
  assumes inv: "inv_sesion s"
  shows "inv_sesion (paso s Deshacer)"
proof (cases "scan_log s = []")
  case True
  then show ?thesis using inv by (simp add: paso_def deshacer_def)
next
  case False
  let ?e = "last (scan_log s)"
  let ?lg = "butlast (scan_log s)"
  from False have lg: "scan_log s = ?lg @ [?e]" by simp
  have rows: "\<And>j. j < length (df s) \<Longrightarrow> inv_fila (?lg @ [?e]) j (df s ! j)"
    using inv lg by (simp add: inv_sesion_def)
  show ?thesis
  proof (cases "e_match ?e \<and> e_destino ?e \<noteq> COMPLETO \<and> e_idx ?e < length (df s)")
    case True
    then obtain p where p: "e_destino ?e = Pais p" by (cases "e_destino ?e") auto
    let ?i = "e_idx ?e"
    have st: "paso s Deshacer = s\<lparr>scan_log := ?lg, df := (df s)[?i := restar p (df s ! ?i)]\<rparr>"
      using False True p by (simp add: paso_def deshacer_def Let_def)
    show ?thesis
      unfolding inv_sesion_def st
    proof (intro allI impI)
      fix j assume "j < length (df (s\<lparr>scan_log := ?lg, df := (df s)[?i := restar p (df s ! ?i)]\<rparr>))"
      then have j: "j < length (df s)" by simp
      show "inv_fila (scan_log (s\<lparr>scan_log := ?lg, df := (df s)[?i := restar p (df s ! ?i)]\<rparr>)) j
              (df (s\<lparr>scan_log := ?lg, df := (df s)[?i := restar p (df s ! ?i)]\<rparr>) ! j)"
      proof (cases "j = ?i")
        case True
        have "inv_fila ?lg ?i (restar p (df s ! ?i))"
          using rows[of ?i] \<open>e_match ?e \<and> e_destino ?e \<noteq> COMPLETO \<and> e_idx ?e < length (df s)\<close> p
          by (intro inv_fila_restar[where e = ?e]) auto
        with True j show ?thesis by simp
      next
        case neq: False
        have "inv_fila (?lg @ [?e]) j (df s ! j) = inv_fila ?lg j (df s ! j)"
          using neq by (intro inv_fila_otra_entrada) auto
        with rows[OF j] neq show ?thesis by simp
      qed
    qed
  next
    case no: False
    have st: "paso s Deshacer = s\<lparr>scan_log := ?lg\<rparr>"
      using False no by (auto simp: paso_def deshacer_def Let_def split: destino.splits)
    show ?thesis
      unfolding inv_sesion_def st
    proof (intro allI impI)
      fix j assume "j < length (df (s\<lparr>scan_log := ?lg\<rparr>))"
      then have j: "j < length (df s)" by simp
      have "inv_fila (?lg @ [?e]) j (df s ! j) = inv_fila ?lg j (df s ! j)"
        using no j by (intro inv_fila_otra_entrada) auto
      with rows[OF j] show "inv_fila (scan_log (s\<lparr>scan_log := ?lg\<rparr>)) j (df (s\<lparr>scan_log := ?lg\<rparr>) ! j)"
        by simp
    qed
  qed
qed

lemma inv_fila_cupo: "inv_fila lg i r \<Longrightarrow> 0 \<le> sint (cupo p r)"
proof -
  assume "inv_fila lg i r"
  then have "int (cuenta lg i p) \<le> sint (cupo p r)" by (simp add: inv_fila_def)
  then show ?thesis by linarith
qed

lemma inv_sesion_reiniciar:
  assumes inv: "inv_sesion s"
  shows "inv_sesion (reiniciar s)"
  unfolding inv_sesion_def
proof (intro allI impI)
  fix j assume "j < length (df (reiniciar s))"
  then have j: "j < length (df s)" by (simp add: reiniciar_def)
  with inv have ij: "inv_fila (scan_log s) j (df s ! j)" by (simp add: inv_sesion_def)
  have "\<And>p. escaneado p (reiniciar_fila (df s ! j)) = 0
          \<and> restante p (reiniciar_fila (df s ! j)) = cupo p (df s ! j)
          \<and> cupo p (reiniciar_fila (df s ! j)) = cupo p (df s ! j)"
    subgoal for p
      by (cases p) (simp_all add: reiniciar_fila_def escaneado_def restante_def cupo_def)
    done
  then show "inv_fila (scan_log (reiniciar s)) j (df (reiniciar s) ! j)"
    using j inv_fila_cupo[OF ij] by (simp add: reiniciar_def inv_fila_def cuenta_def)
qed

lemma inv_sesion_paso: "inv_sesion s \<Longrightarrow> inv_sesion (paso s ev)"
proof (cases ev)
  case (Escanear ts raw_code)
  assume "inv_sesion s"
  then show ?thesis
    using inv_sesion_registrar[of s ts raw_code] by (simp add: paso_def Escanear)
next
  case Deshacer
  assume "inv_sesion s"
  then show ?thesis using inv_sesion_deshacer by (simp add: Deshacer)
next
  case Reiniciar
  assume "inv_sesion s"
  then show ?thesis using inv_sesion_reiniciar by (simp add: paso_def Reiniciar)
next
  case (Priorizar sel)
  assume "inv_sesion s"
  then show ?thesis by (simp add: paso_def Priorizar set_prioridad_def inv_sesion_def)
qed

lemma inv_sesion_ejecutar: "inv_sesion s \<Longrightarrow> inv_sesion (ejecutar s evs)"
  unfolding ejecutar_def
  by (induction evs arbitrary: s) (simp_all add: inv_sesion_paso)

lemma inv_fila_contadores: "inv_fila lg i r \<Longrightarrow> contadores_ok p r"
  by (simp add: inv_fila_def contadores_ok_def)

text \<open>
  When a manifest with nonnegative quotas is applied while the scan log is empty (the
  first manifest of a session, or one applied after a reset), every sequence of scans,
  undos, resets and priority changes keeps, for every row and country,
  \<open>0 \<le> scanned \<le> quota\<close> and \<open>remaining = quota - scanned\<close>, on the signed values
  of the columns.
\<close>

lemma contadores_ok_sin_recarga:
  "cupos_no_negativos data \<Longrightarrow> scan_log s0 = [] \<Longrightarrow>
   r \<in> set (df (ejecutar (aplicar_factura data s0) evs)) \<Longrightarrow>
   contadores_ok p r"
proof -
  assume q: "cupos_no_negativos data" and l: "scan_log s0 = []"
    and r: "r \<in> set (df (ejecutar (aplicar_factura data s0) evs))"
  have "inv_sesion (aplicar_factura data s0)"
    using q l by (rule inv_sesion_aplicar)
  then have "inv_sesion (ejecutar (aplicar_factura data s0) evs)"
    by (rule inv_sesion_ejecutar)
  with r show ?thesis
    by (auto simp: inv_sesion_def in_set_conv_nth intro: inv_fila_contadores)
qed

lemma aplicar_factura_conserva_logs:
  "scan_log (aplicar_factura data s) = scan_log s
   \<and> no_match (aplicar_factura data s) = no_match s
   \<and> prioridad (aplicar_factura data s) = prioridad s"
  by (simp add: aplicar_factura_def Let_def)

text \<open>
  C1 does not hold on the code once a manifest is applied again. The \<^verbatim>\<open>need_reload\<close>
  block sets the counters of the new table to zero and keeps the scan log, where the
  reset button empties it. With a one-row manifest of quota 1 for Peru: apply it, scan
  the code (allocated to row 0, Peru), apply the manifest again, press undo. The undo
  pops the entry of the first table and takes one from the fresh counters: scanned is
  \<open>-1\<close> and remaining is 2 for a quota of 1. After a reset instead, the log is empty
  and the undo changes nothing.
\<close>

theorem recarga_deshacer_rompe_contadores:
  "cupos_no_negativos [fila_a1]
   \<and> snd (registrar_codigo ''t1'' ''a1'' (aplicar_factura [fila_a1] ensure_session))
       = Asignado 0 Peru
   \<and> sesion_a1_llena
       = fst (registrar_codigo ''t1'' ''a1'' (aplicar_factura [fila_a1] ensure_session))
   \<and> scan_log (aplicar_factura [fila_a1] sesion_a1_llena) = scan_log sesion_a1_llena
   \<and> length (scan_log sesion_a1_llena) = 1
   \<and> sint (sc_pe (df (aplicar_factura [fila_a1] sesion_a1_llena) ! 0)) = 0
   \<and> sint (peru (df (paso (aplicar_factura [fila_a1] sesion_a1_llena) Deshacer) ! 0)) = 1
   \<and> sint (sc_pe (df (paso (aplicar_factura [fila_a1] sesion_a1_llena) Deshacer) ! 0)) = - 1
   \<and> sint (rem_pe (df (paso (aplicar_factura [fila_a1] sesion_a1_llena) Deshacer) ! 0)) = 2
   \<and> \<not> contadores_ok Peru (df (paso (aplicar_factura [fila_a1] sesion_a1_llena) Deshacer) ! 0)
   \<and> scan_log (reiniciar sesion_a1_llena) = []
   \<and> paso (reiniciar sesion_a1_llena) Deshacer = reiniciar sesion_a1_llena"
  by code_simp

end
